theory Spec2Isabelle
  imports Complex_Main
begin

section \<open>JavaScript values\<close>

text \<open>
  The handlers work on parsed JSON payloads and coerce them with the operators of
  JavaScript. Numbers are modelled as exact rationals together with the three special
  values of the runtime; a \<open>Date\<close> carries its milliseconds. Strings are ASCII text.
  Property reads concern own data properties of parsed objects only.
\<close>

datatype jsnum = Fin rat | PInf | NInf | NaN

datatype jsval =
    JUndef
  | JNull
  | JBool bool
  | JNum jsnum
  | JStr string
  | JDate int
  | JArr "jsval list"
  | JObj "(string \<times> jsval) list"

type_synonym obj = "(string \<times> jsval) list"

text \<open>
  Two conversions are built into the runtime and are not part of the repository:
  \<open>Number(s)\<close> on a string and \<open>String(v)\<close> on a value that is not a string. They
  are parameters of the model; every theorem below holds for each runtime.
\<close>

record runtime =
  Number_str :: "string \<Rightarrow> jsnum"
  String_val :: "jsval \<Rightarrow> string"

fun is_nullish :: "jsval \<Rightarrow> bool" where
  "is_nullish JUndef = True"
| "is_nullish JNull = True"
| "is_nullish _ = False"

fun truthy :: "jsval \<Rightarrow> bool" where
  "truthy JUndef = False"
| "truthy JNull = False"
| "truthy (JBool b) = b"
| "truthy (JNum n) = (n \<noteq> Fin 0 \<and> n \<noteq> NaN)"
| "truthy (JStr s) = (s \<noteq> [])"
| "truthy _ = True"

definition js_or :: "jsval \<Rightarrow> jsval \<Rightarrow> jsval" where
  \<comment> \<open>\<open>a || b\<close>\<close>
  "js_or a b = (if truthy a then a else b)"

definition nullish_or :: "jsval \<Rightarrow> jsval \<Rightarrow> jsval" where
  \<comment> \<open>\<open>a ?? b\<close>\<close>
  "nullish_or a b = (if is_nullish a then b else a)"

fun get_prop :: "jsval \<Rightarrow> string \<Rightarrow> jsval" where
  \<comment> \<open>\<open>o.k\<close> on a receiver that is neither null nor undefined\<close>
  "get_prop (JObj kvs) k = (case map_of kvs k of Some v \<Rightarrow> v | None \<Rightarrow> JUndef)"
| "get_prop _ k = JUndef"

definition opt_prop :: "jsval \<Rightarrow> string \<Rightarrow> jsval" where
  \<comment> \<open>\<open>o?.k\<close>\<close>
  "opt_prop v k = (if is_nullish v then JUndef else get_prop v k)"

definition to_string :: "runtime \<Rightarrow> jsval \<Rightarrow> string" where
  \<comment> \<open>\<open>String(v)\<close>\<close>
  "to_string E v = (case v of JStr s \<Rightarrow> s | _ \<Rightarrow> String_val E v)"

definition toNum :: "runtime \<Rightarrow> string option \<Rightarrow> jsval" where
  \<comment> \<open>\<open>toNum\<close> of http.js: a finite number or undefined; an absent field is undefined\<close>
  "toNum E v =
     (case v of
        None \<Rightarrow> JUndef
      | Some s \<Rightarrow> (case Number_str E s of Fin r \<Rightarrow> JNum (Fin r) | _ \<Rightarrow> JUndef))"

section \<open>Strings\<close>

definition is_space :: "char \<Rightarrow> bool" where
  "is_space c = (c \<in> set [CHR '' '', CHR 0x09, CHR 0x0A, CHR 0x0B, CHR 0x0C, CHR 0x0D])"

definition trim :: "string \<Rightarrow> string" where
  "trim s = rev (dropWhile is_space (rev (dropWhile is_space s)))"

fun split_on :: "char \<Rightarrow> string \<Rightarrow> string list" where
  \<comment> \<open>\<open>s.split(c)\<close>: always at least one part\<close>
  "split_on c [] = [[]]"
| "split_on c (x # xs) =
     (if x = c then [] # split_on c xs
      else (case split_on c xs of p # ps \<Rightarrow> (x # p) # ps | [] \<Rightarrow> [[x]]))"

definition upper_char :: "char \<Rightarrow> char" where
  "upper_char c =
     (let n = (of_char c :: nat) in if 97 \<le> n \<and> n \<le> 122 then char_of (n - 32) else c)"

definition toUpperCase :: "string \<Rightarrow> string" where
  "toUpperCase s = map upper_char s"

fun str_includes :: "string \<Rightarrow> string \<Rightarrow> bool" where
  \<comment> \<open>\<open>s.includes(pat)\<close>\<close>
  "str_includes [] pat = (pat = [])"
| "str_includes (c # cs) pat = (take (length pat) (c # cs) = pat \<or> str_includes cs pat)"

fun join :: "string \<Rightarrow> string list \<Rightarrow> string" where
  "join sep [] = []"
| "join sep [x] = x"
| "join sep (x # y # ys) = x @ sep @ join sep (y # ys)"

definition nth_opt :: "'a list \<Rightarrow> nat \<Rightarrow> 'a option" where
  \<comment> \<open>\<open>xs[i]\<close>, undefined out of range\<close>
  "nth_opt xs i = (if i < length xs then Some (xs ! i) else None)"

section \<open>Objects as ordered key lists\<close>

fun obj_set :: "obj \<Rightarrow> string \<Rightarrow> jsval \<Rightarrow> obj" where
  \<comment> \<open>\<open>o[k] = v\<close>: an existing key keeps its place\<close>
  "obj_set [] k v = [(k, v)]"
| "obj_set ((k', v') # kvs) k v =
     (if k' = k then (k, v) # kvs else (k', v') # obj_set kvs k v)"

definition obj_assign :: "obj \<Rightarrow> obj \<Rightarrow> obj" where
  \<comment> \<open>\<open>Object.assign(target, src)\<close> and the spread \<open>{...target, ...src}\<close>\<close>
  "obj_assign target src = foldl (\<lambda>t (k, v). obj_set t k v) target src"

section \<open>The line decoder (routes/http.js)\<close>

record parsed =
  patch :: obj
  metrics :: obj
  signals :: obj
  raw :: string

definition uart_parts :: "string \<Rightarrow> string list" where
  \<comment> \<open>\<open>line.trim().split(",").map(s => s.trim())\<close>\<close>
  "uart_parts line = map trim (split_on CHR '','' (trim line))"

definition uart_tag :: "string \<Rightarrow> string" where
  \<comment> \<open>\<open>(parts[0] || "").toUpperCase()\<close>\<close>
  "uart_tag line =
     toUpperCase (case nth_opt (uart_parts line) 0 of Some t \<Rightarrow> t | None \<Rightarrow> [])"

definition hrv_names :: "string list" where
  "hrv_names =
     [''mean_rr'', ''sdnn'', ''rmssd'', ''pnn50'', ''hr_median'', ''rr_tri_index'',
      ''tin_rmssd'', ''sd1'', ''sd2'', ''lf'', ''hf'', ''lfhf'', ''sample_entropy'',
      ''sd1sd2'', ''sns_index'', ''pns_index'']"

definition flag_val :: "runtime \<Rightarrow> string option \<Rightarrow> jsval" where
  \<comment> \<open>\<open>parts[1] !== undefined ? Number(parts[1]) === 1 : undefined\<close>\<close>
  "flag_val E v =
     (case v of None \<Rightarrow> JUndef | Some s \<Rightarrow> JBool (Number_str E s = Fin 1))"

definition hrv_case :: "runtime \<Rightarrow> string list \<Rightarrow> obj \<times> obj" where
  \<comment> \<open>the \<open>HRV_DATA\<close> branch: the patch and the metric bag\<close>
  "hrv_case E parts =
     (if length parts \<ge> 17 then
        (let ms = map (\<lambda>i. (hrv_names ! i, toNum E (nth_opt parts (Suc i)))) [0..<16];
             rmssd = get_prop (JObj ms) ''rmssd'';
             hr_median = get_prop (JObj ms) ''hr_median'';
             p1 = (if rmssd \<noteq> JUndef then [(''hrv'', rmssd)] else []);
             p2 = (if hr_median \<noteq> JUndef then obj_set p1 ''heartRate'' hr_median else p1)
         in (p2, ms))
      else ([], []))"

definition parseUartLine :: "runtime \<Rightarrow> string \<Rightarrow> parsed option" where
  "parseUartLine E line =
     (if line = [] then None
      else
        (let parts = uart_parts line;
             tag = uart_tag line;
             p1 = nth_opt parts 1;
             p2 = nth_opt parts 2;
             (pa, me, si) =
               (if tag = ''HRV_DATA'' then
                  (fst (hrv_case E parts), snd (hrv_case E parts), [])
                else if tag = ''TEMP_HUM'' then
                  ([(''temperature'', toNum E p1), (''humidity'', toNum E p2)], [], [])
                else if tag = ''HR'' then ([(''heartRate'', toNum E p1)], [], [])
                else if tag = ''RES'' then ([(''respiration'', toNum E p1)], [], [])
                else if tag = ''STRESS'' then ([(''stress'', toNum E p1)], [], [])
                else if tag = ''RR'' then ([], [(''sample_entropy'', JUndef)], [])
                else if tag = ''MOTION'' then ([], [], [(''motion'', flag_val E p1)])
                else if tag = ''PRESENCE'' then ([], [], [(''presence'', flag_val E p1)])
                else if tag = ''ACT'' \<or> tag = ''ACTIVITY'' then
                  ([], [], [(''activity'', toNum E p1)])
                else if tag = ''BAT'' then ([], [], [(''battery'', toNum E p1)])
                else if tag = ''MIC'' then ([], [], [(''mic'', toNum E p1)])
                else ([], [], []))
         in Some \<lparr>patch = pa, metrics = me, signals = si, raw = line\<rparr>))"

section \<open>Stored documents and process state\<close>

text \<open>
  The collections of the database are lists of documents in insertion order; a document
  is identified by its \<open>_id\<close>. An \<open>ObjectId\<close> is the text that \<open>toString\<close>
  prints. Storage calls succeed; clock reads of one handler run are taken at one instant
  \<open>now\<close>, in milliseconds.
\<close>

type_synonym oid = string

datatype status = Inactive | Active | UnderMaintenance

record device =
  d_id :: oid
  deviceId :: string
  deviceType :: string
  status :: status
  profileId :: "oid option"
  userId :: "oid option"
  lastActiveAt :: "int option"

record user =
  u_id :: oid
  activeDevice :: "oid option"
  activeDevices :: "oid list"

record profile =
  p_id :: oid
  p_identifier :: string

record health_doc =
  h_deviceId :: string
  h_timestamp :: int
  h_fields :: obj

record sleep_doc =
  s_deviceId :: string
  s_timestamp :: int
  sleepQuality :: jsval
  duration :: jsval

text \<open>
  The only tracker of the repository is the constant \<open>presenceState\<close> of
  deviceManagementController.js, a map \<open>deviceId -> {lastPresence, lastValues:{}}\<close>
  local to that module: it is not exported, and no function of the repository reads or
  writes it. It is part of the process state all the same.
\<close>

record tracker_entry =
  lastPresence :: jsnum
  lastValues :: "string \<rightharpoonup> jsval"

record store =
  devices :: "device list"
  users :: "user list"
  profiles :: "profile list"
  healthData :: "health_doc list"
  sleepData :: "sleep_doc list"
  presenceState :: "string \<rightharpoonup> tracker_entry"

datatype error = BadRequest string | NotFound string | Conflict string | Internal string

definition findOne_device :: "device list \<Rightarrow> string \<Rightarrow> device option" where
  \<comment> \<open>\<open>Device.findOne({ deviceId })\<close>\<close>
  "findOne_device ds i = find (\<lambda>d. deviceId d = i) ds"

definition update_device :: "oid \<Rightarrow> (device \<Rightarrow> device) \<Rightarrow> device list \<Rightarrow> device list" where
  \<comment> \<open>an update of the document with the given \<open>_id\<close>\<close>
  "update_device i f ds = map (\<lambda>d. if d_id d = i then f d else d) ds"

definition mark_active :: "int \<Rightarrow> device \<Rightarrow> device" where
  \<comment> \<open>\<open>{ status: "active", lastActiveAt: new Date() }\<close>\<close>
  "mark_active now d = d\<lparr>status := Active, lastActiveAt := Some now\<rparr>"

section \<open>The health record of a payload\<close>

definition zero :: jsval where
  "zero = JNum (Fin 0)"

fun spread :: "runtime \<Rightarrow> jsval \<Rightarrow> obj" where
  \<comment> \<open>\<open>{...v}\<close>: the own entries of an object, the indexed elements of an array or string\<close>
  "spread E (JObj kvs) = kvs"
| "spread E (JArr xs) =
     map (\<lambda>i. (String_val E (JNum (Fin (of_nat i))), xs ! i)) [0..<length xs]"
| "spread E (JStr s) =
     map (\<lambda>i. (String_val E (JNum (Fin (of_nat i))), JStr [s ! i])) [0..<length s]"
| "spread E _ = []"

definition base_signals :: "jsval \<Rightarrow> obj" where
  "base_signals sg =
     [(''motion'', nullish_or (opt_prop sg ''motion'') JNull),
      (''presence'', nullish_or (opt_prop sg ''presence'') JNull),
      (''battery'', nullish_or (opt_prop sg ''battery'') JNull),
      (''activity'', nullish_or (opt_prop sg ''activity'') JNull),
      (''mic'', nullish_or (opt_prop sg ''mic'') JNull),
      (''rrIntervals'', js_or (opt_prop sg ''rrIntervals'') (JArr [])),
      (''rawWaveform'', js_or (opt_prop sg ''rawWaveform'') (JArr []))]"

definition base_record :: "runtime \<Rightarrow> string \<Rightarrow> int \<Rightarrow> jsval \<Rightarrow> obj" where
  \<comment> \<open>\<open>base\<close> of both handlers, for a payload that is neither null nor undefined\<close>
  "base_record E dev now d =
     [(''deviceId'', JStr dev),
      (''timestamp'', JDate now),
      (''temperature'', js_or (get_prop d ''temperature'') zero),
      (''humidity'', js_or (get_prop d ''humidity'') zero),
      (''iaq'', js_or (get_prop d ''iaq'') zero),
      (''eco2'', js_or (get_prop d ''eco2'') zero),
      (''tvoc'', js_or (get_prop d ''tvoc'') zero),
      (''etoh'', js_or (get_prop d ''etoh'') zero),
      (''hrv'', js_or (get_prop d ''hrv'') zero),
      (''stress'', js_or (get_prop d ''stress'') zero),
      (''respiration'', js_or (js_or (get_prop d ''resp'') (get_prop d ''respiration'')) zero),
      (''heartRate'', js_or (js_or (get_prop d ''hr'') (get_prop d ''heartRate'')) zero),
      (''metrics'', JObj (spread E (js_or (get_prop d ''metrics'') (JObj [])))),
      (''signals'', JObj (base_signals (get_prop d ''signals''))),
      (''raw'', js_or (get_prop d ''raw'') (JObj []))]"

definition payload_lines :: "jsval \<Rightarrow> jsval list" where
  \<comment> \<open>\<open>Array.isArray(data.lines) ? data.lines : (data.line ? [data.line] : [])\<close>\<close>
  "payload_lines d =
     (case get_prop d ''lines'' of
        JArr xs \<Rightarrow> xs
      | _ \<Rightarrow> (if truthy (get_prop d ''line'') then [get_prop d ''line''] else []))"

fun fold_lines ::
  "runtime \<Rightarrow> jsval list \<Rightarrow> obj \<times> obj \<times> obj \<times> string list \<Rightarrow> obj \<times> obj \<times> obj \<times> string list"
where
  \<comment> \<open>the loop over the lines: merged patch, metrics, signals and the raw lines\<close>
  "fold_lines E [] acc = acc"
| "fold_lines E (l # ls) (mp, mm, ms, raws) =
     (case parseUartLine E (to_string E l) of
        None \<Rightarrow> fold_lines E ls (mp, mm, ms, raws)
      | Some p \<Rightarrow>
          fold_lines E ls
            (obj_assign mp (patch p), obj_assign mm (metrics p),
             obj_assign ms (signals p), raws @ [raw p]))"

definition raw_field :: "string list \<Rightarrow> obj \<Rightarrow> jsval" where
  \<comment> \<open>\<open>raws.length ? raws.join("\n") : base.raw\<close>\<close>
  "raw_field raws base =
     (if raws \<noteq> [] then JStr (join [CHR 0x0A] raws) else get_prop (JObj base) ''raw'')"

definition new_health :: "string \<Rightarrow> int \<Rightarrow> obj \<Rightarrow> health_doc" where
  \<comment> \<open>\<open>new HealthData({...})\<close>; the schema of HealthData is not among the sources\<close>
  "new_health dev now fs = \<lparr>h_deviceId = dev, h_timestamp = now, h_fields = fs\<rparr>"

definition new_sleep :: "string \<Rightarrow> int \<Rightarrow> jsval \<Rightarrow> sleep_doc" where
  "new_sleep dev now d =
     \<lparr>s_deviceId = dev, s_timestamp = now,
      sleepQuality = js_or (get_prop d ''sleepQuality'') (JStr ''Unknown''),
      duration = js_or (get_prop d ''duration'') zero\<rparr>"

section \<open>The request-based endpoint (routes/http.js)\<close>

definition invalid_type_message :: string where
  "invalid_type_message =
     ''Invalid type. Use '' @ [CHR 0x27] @ ''health'' @ [CHR 0x27] @ '' or ''
       @ [CHR 0x27] @ ''sleep'' @ [CHR 0x27]"

definition http_health_fields :: "runtime \<Rightarrow> string \<Rightarrow> int \<Rightarrow> jsval \<Rightarrow> obj" where
  "http_health_fields E dev now d =
     (let base = base_record E dev now d;
          (mp, mm, ms, raws) = fold_lines E (payload_lines d) ([], [], [], [])
      in obj_set
           (obj_set
              (obj_set (obj_assign base mp) ''metrics''
                 (JObj (obj_assign (spread E (get_prop (JObj base) ''metrics'')) mm)))
              ''signals'' (JObj (obj_assign (spread E (get_prop (JObj base) ''signals'')) ms)))
           ''raw'' (raw_field raws base))"

definition http_ingest ::
  "runtime \<Rightarrow> int \<Rightarrow> string option \<Rightarrow> string option \<Rightarrow> jsval \<Rightarrow> store
     \<Rightarrow> (error + string) \<times> store"
where
  \<comment> \<open>\<open>POST /ingest\<close> with body \<open>{ deviceId, type, data }\<close>; \<open>deviceId\<close> and
     \<open>type\<close> are strings or absent\<close>
  "http_ingest E now dev_opt type_opt d s =
     (case (dev_opt, type_opt) of
        (Some dev, Some ty) \<Rightarrow>
          (if dev \<noteq> [] \<and> ty \<noteq> [] \<and> truthy d then
             (case findOne_device (devices s) dev of
                None \<Rightarrow> (Inl (NotFound (''Device '' @ dev @ '' not found'')), s)
              | Some dv \<Rightarrow>
                  (let s1 = s\<lparr>devices := update_device (d_id dv) (mark_active now) (devices s)\<rparr>
                   in if ty = ''health'' then
                        (Inr ''Health data saved via http'',
                         s1\<lparr>healthData :=
                              healthData s1 @ [new_health dev now (http_health_fields E dev now d)]\<rparr>)
                      else if ty = ''sleep'' then
                        (Inr ''Sleep data saved'',
                         s1\<lparr>sleepData := sleepData s1 @ [new_sleep dev now d]\<rparr>)
                      else
                        (Inl (BadRequest invalid_type_message), s1)))
           else (Inl (BadRequest ''deviceId, type, and data are required''), s))
      | _ \<Rightarrow> (Inl (BadRequest ''deviceId, type, and data are required''), s))"

section \<open>The publish/subscribe message handler\<close>

text \<open>
  At module level the handler's file declares \<open>express\<close>, \<open>mqtt\<close>, \<open>dotenv\<close>,
  \<open>HealthData\<close>, \<open>SleepData\<close>, \<open>Device\<close>, \<open>User\<close>, \<open>SPEC\<close>, \<open>router\<close>, the
  broker settings, \<open>client\<close> and its own functions, and nothing else. In the health branch,
  after the base record and the presence number are computed (neither can throw for a
  payload other than \<open>null\<close>), the next statement is \<open>presenceState.get(deviceId)\<close>.
  The name \<open>presenceState\<close> is neither declared nor imported in this file, so the read
  throws a \<open>ReferenceError\<close>, which the handler's \<open>catch\<close> logs. The retraction
  (\<open>deleteMany\<close>), the presence gate, the loop over the rules of \<open>SPEC\<close>, the decoding
  of lines and the \<open>save()\<close> all come after that statement and are never reached.
\<close>

datatype js_error = SyntaxError | TypeError | ReferenceError string

datatype outcome =
    Thrown js_error
  | NoDeviceId
  | SavedSleep
  | Ignored

definition topic_deviceId :: "string \<Rightarrow> string option" where
  \<comment> \<open>\<open>topic.split("/")[1]\<close>\<close>
  "topic_deviceId topic = nth_opt (split_on CHR ''/'' topic) 1"

definition mqtt_health :: "jsval \<Rightarrow> store \<Rightarrow> outcome \<times> store" where
  \<comment> \<open>the branch \<open>topic.includes("/health")\<close>: \<open>newData.temperature\<close> throws on
     \<open>null\<close>; otherwise \<open>presenceState.get\<close> throws, before any storage call\<close>
  "mqtt_health d s =
     (if is_nullish d then (Thrown TypeError, s)
      else (Thrown (ReferenceError ''presenceState''), s))"

definition mqtt_sleep :: "int \<Rightarrow> string \<Rightarrow> jsval \<Rightarrow> store \<Rightarrow> outcome \<times> store" where
  \<comment> \<open>the branch \<open>topic.includes("/sleep")\<close>\<close>
  "mqtt_sleep now dev d s =
     (if is_nullish d then (Thrown TypeError, s)
      else (SavedSleep, s\<lparr>sleepData := sleepData s @ [new_sleep dev now d]\<rparr>))"

definition mqtt_message :: "int \<Rightarrow> string \<Rightarrow> jsval option \<Rightarrow> store \<Rightarrow> outcome \<times> store" where
  \<comment> \<open>\<open>client.on("message")\<close>; the message is the parsed payload, \<open>None\<close> when
     \<open>JSON.parse\<close> throws\<close>
  "mqtt_message now topic message s =
     (case message of
        None \<Rightarrow> (Thrown SyntaxError, s)
      | Some d \<Rightarrow>
          (case topic_deviceId topic of
             None \<Rightarrow> (NoDeviceId, s)
           | Some dev \<Rightarrow>
               (if dev = [] then (NoDeviceId, s)
                else
                  (let device = findOne_device (devices s) dev;
                       s1 = (case device of
                               Some dv \<Rightarrow>
                                 s\<lparr>devices :=
                                     update_device (d_id dv) (mark_active now) (devices s)\<rparr>
                             | None \<Rightarrow> s)
                   in if str_includes topic ''/health'' then mqtt_health d s1
                      else if str_includes topic ''/sleep'' then mqtt_sleep now dev d s1
                      else (Ignored, s1)))))"

section \<open>The device activation manager\<close>

text \<open>
  A document read by \<open>findOne\<close> is a copy in memory. Its \<open>save()\<close> writes the paths that
  were modified: Mongoose marks a path modified only when the assigned value differs from
  the value the document holds, so assigning \<open>"active"\<close> to a document read as active
  writes no status.

  The \<open>profileId\<close> of a request is a text of 24 hexadecimal digits in either case.
  Mongoose casts it to an \<open>ObjectId\<close> wherever it is used as one (the filter of
  \<open>updateMany\<close>, the assignment to \<open>device.profileId\<close>, \<open>Profile.findById\<close>), and an
  \<open>ObjectId\<close> prints in lower case; the conflict test and the messages use the text as
  given. A text that cannot be cast makes \<open>updateMany\<close> throw before anything is written
  and is outside the model.
\<close>

definition lower_hex :: "char \<Rightarrow> char" where
  "lower_hex c =
     (let n = (of_char c :: nat) in if 65 \<le> n \<and> n \<le> 70 then char_of (n + 32) else c)"

definition castObjectId :: "string \<Rightarrow> oid" where
  \<comment> \<open>\<open>new mongoose.Types.ObjectId(text)\<close>, as \<open>toString\<close> prints it\<close>
  "castObjectId text = map lower_hex text"

definition save_device :: "device \<Rightarrow> device \<Rightarrow> device list \<Rightarrow> device list" where
  \<comment> \<open>\<open>device.save()\<close>: \<open>loaded\<close> is the document as read, \<open>doc\<close> after the assignments\<close>
  "save_device loaded doc ds =
     update_device (d_id loaded)
       (\<lambda>x. x\<lparr>status := (if status doc \<noteq> status loaded then status doc else status x),
              profileId :=
                (if profileId doc \<noteq> profileId loaded then profileId doc else profileId x),
              lastActiveAt :=
                (if lastActiveAt doc \<noteq> lastActiveAt loaded then lastActiveAt doc
                 else lastActiveAt x)\<rparr>)
       ds"

definition deactivate_profile :: "string \<Rightarrow> device list \<Rightarrow> device list" where
  \<comment> \<open>\<open>Device.updateMany({ profileId }, { $set: { status: "inactive" } })\<close>\<close>
  "deactivate_profile pid ds =
     map (\<lambda>d. if profileId d = Some (castObjectId pid) then d\<lparr>status := Inactive\<rparr> else d) ds"

definition set_activeDevice :: "oid option \<Rightarrow> oid \<Rightarrow> user list \<Rightarrow> user list" where
  \<comment> \<open>\<open>User.findByIdAndUpdate(device.userId, { $set: { activeDevice: device._id } })\<close>\<close>
  "set_activeDevice uid did us =
     map (\<lambda>u. if Some (u_id u) = uid then u\<lparr>activeDevice := Some did\<rparr> else u) us"

definition profile_name :: "profile list \<Rightarrow> oid \<Rightarrow> string \<Rightarrow> string" where
  \<comment> \<open>\<open>profile?.identifier || text\<close> for the profile found by id\<close>
  "profile_name ps pid text =
     (case find (\<lambda>p. p_id p = pid) ps of
        Some p \<Rightarrow> (if p_identifier p \<noteq> [] then p_identifier p else text)
      | None \<Rightarrow> text)"

definition quoted :: "string \<Rightarrow> string" where
  "quoted s = [CHR 0x22] @ s @ [CHR 0x22]"

definition conflict_message :: "string \<Rightarrow> string \<Rightarrow> string" where
  "conflict_message dev name = ''Device '' @ dev @ '' is already active on profile '' @ quoted name"

definition activated_message :: "string \<Rightarrow> string \<Rightarrow> string" where
  "activated_message dev name = ''Device '' @ dev @ '' activated on profile '' @ quoted name"

definition bound_profile_name :: "profile list \<Rightarrow> device \<Rightarrow> string" where
  \<comment> \<open>\<open>activeProfile?.identifier || device.profileId\<close> after
     \<open>Profile.findById(device.profileId)\<close>\<close>
  "bound_profile_name ps d =
     (case profileId d of Some p \<Rightarrow> profile_name ps p p | None \<Rightarrow> [])"

definition has_conflict :: "device \<Rightarrow> string \<Rightarrow> bool" where
  \<comment> \<open>\<open>device.status === "active" && device.profileId &&
       device.profileId.toString() !== profileId\<close>\<close>
  "has_conflict d pid =
     (status d = Active \<and> (case profileId d of Some p \<Rightarrow> p \<noteq> pid | None \<Rightarrow> False))"

definition activated :: "int \<Rightarrow> string \<Rightarrow> device \<Rightarrow> device" where
  \<comment> \<open>the three assignments to the document in memory\<close>
  "activated now pid d =
     d\<lparr>status := Active, profileId := Some (castObjectId pid), lastActiveAt := Some now\<rparr>"

definition activate ::
  "int \<Rightarrow> string \<Rightarrow> string option \<Rightarrow> store \<Rightarrow> (error + string) \<times> store"
where
  \<comment> \<open>\<open>PUT /activate/:deviceId?profileId=...\<close>\<close>
  "activate now dev pid_opt s =
     (case pid_opt of
        None \<Rightarrow> (Inl (BadRequest ''profileId required''), s)
      | Some pid \<Rightarrow>
          (if pid = [] then (Inl (BadRequest ''profileId required''), s)
           else
             (case findOne_device (devices s) dev of
                None \<Rightarrow> (Inl (NotFound ''Device not found''), s)
              | Some d \<Rightarrow>
                  (if has_conflict d pid then
                     (Inl (Conflict (conflict_message dev (bound_profile_name (profiles s) d))), s)
                   else
                     (let s1 = s\<lparr>devices := deactivate_profile pid (devices s)\<rparr>;
                          s2 = s1\<lparr>devices := save_device d (activated now pid d) (devices s1)\<rparr>;
                          s3 = s2\<lparr>users := set_activeDevice (userId d) (d_id d) (users s2)\<rparr>
                      in (Inr (activated_message dev (profile_name (profiles s3) (castObjectId pid) pid)),
                          s3))))))"

text \<open>
  Every \<open>await\<close> of the handler is a point where another request may run. The handler
  is therefore also given as a machine with one step for each awaited call, together with
  the code that follows it up to the next \<open>await\<close>.
\<close>

datatype act_pc =
    AStart
  | AConflict device
  | ALoaded device
  | ADeactivated device
  | ASaved device
  | AUserSet device
  | ADone "error + string"

fun activate_step ::
  "int \<Rightarrow> string \<Rightarrow> oid option \<Rightarrow> act_pc \<times> store \<Rightarrow> act_pc \<times> store"
where
  "activate_step now dev pid_opt (AStart, s) =
     (case pid_opt of
        None \<Rightarrow> (ADone (Inl (BadRequest ''profileId required'')), s)
      | Some pid \<Rightarrow>
          (if pid = [] then (ADone (Inl (BadRequest ''profileId required'')), s)
           else
             (case findOne_device (devices s) dev of
                None \<Rightarrow> (ADone (Inl (NotFound ''Device not found'')), s)
              | Some d \<Rightarrow> (if has_conflict d pid then (AConflict d, s) else (ALoaded d, s)))))"
| "activate_step now dev pid_opt (AConflict d, s) =
     (ADone (Inl (Conflict (conflict_message dev (bound_profile_name (profiles s) d)))), s)"
| "activate_step now dev pid_opt (ALoaded d, s) =
     (case pid_opt of
        None \<Rightarrow> (ADone (Inl (Internal [])), s)
      | Some pid \<Rightarrow> (ADeactivated d, s\<lparr>devices := deactivate_profile pid (devices s)\<rparr>))"
| "activate_step now dev pid_opt (ADeactivated d, s) =
     (case pid_opt of
        None \<Rightarrow> (ADone (Inl (Internal [])), s)
      | Some pid \<Rightarrow> (ASaved d, s\<lparr>devices := save_device d (activated now pid d) (devices s)\<rparr>))"
| "activate_step now dev pid_opt (ASaved d, s) =
     (AUserSet d, s\<lparr>users := set_activeDevice (userId d) (d_id d) (users s)\<rparr>)"
| "activate_step now dev pid_opt (AUserSet d, s) =
     (case pid_opt of
        None \<Rightarrow> (ADone (Inl (Internal [])), s)
      | Some pid \<Rightarrow>
          (ADone (Inr (activated_message dev (profile_name (profiles s) (castObjectId pid) pid))),
           s))"
| "activate_step now dev pid_opt (ADone r, s) = (ADone r, s)"

fun interleave ::
  "int \<Rightarrow> string \<times> oid option \<Rightarrow> string \<times> oid option \<Rightarrow> bool list
     \<Rightarrow> act_pc \<times> act_pc \<times> store \<Rightarrow> act_pc \<times> act_pc \<times> store"
where
  \<comment> \<open>two requests in flight; the schedule says which one runs its next step\<close>
  "interleave now ra rb [] c = c"
| "interleave now ra rb (True # sch) (pa, pb, s) =
     (case activate_step now (fst ra) (snd ra) (pa, s) of
        (pa', s') \<Rightarrow> interleave now ra rb sch (pa', pb, s'))"
| "interleave now ra rb (False # sch) (pa, pb, s) =
     (case activate_step now (fst rb) (snd rb) (pb, s) of
        (pb', s') \<Rightarrow> interleave now ra rb sch (pa, pb', s'))"

definition active_for :: "oid \<Rightarrow> store \<Rightarrow> device list" where
  \<comment> \<open>the devices bound to a profile with status active\<close>
  "active_for pid s = filter (\<lambda>d. profileId d = Some pid \<and> status d = Active) (devices s)"

section \<open>Deactivation (controllers/deviceManagementController.js)\<close>

definition setInactiveDevice ::
  "oid \<Rightarrow> string \<Rightarrow> store \<Rightarrow> (error + string) \<times> store"
where
  \<comment> \<open>\<open>req.user.userId\<close> and \<open>req.params.deviceId\<close>\<close>
  "setInactiveDevice uid dev s =
     (if dev = [] then (Inl (BadRequest ''Device ID is required''), s)
      else
        (case find (\<lambda>u. u_id u = uid) (users s) of
           None \<Rightarrow> (Inl (NotFound ''User not found''), s)
         | Some u \<Rightarrow>
             (case findOne_device (devices s) dev of
                None \<Rightarrow> (Inl (NotFound ''Device not found''), s)
              | Some d \<Rightarrow>
                  (let s1 = s\<lparr>devices :=
                               update_device (d_id d) (\<lambda>x. x\<lparr>status := Inactive\<rparr>) (devices s)\<rparr>;
                       s2 = s1\<lparr>users :=
                                map (\<lambda>x. if u_id x = uid
                                          then x\<lparr>activeDevices :=
                                                  filter (\<lambda>i. i \<noteq> d_id d) (activeDevices u)\<rparr>
                                          else x)
                                  (users s1)\<rparr>
                   in (Inr (''Device '' @ dev @ '' set as inactive''), s2)))))"

section \<open>A runtime for evaluating the model\<close>

text \<open>
  The theorems hold for every runtime. To evaluate the model on concrete lines and
  payloads, this runtime reads a string of decimal digits as \<open>Number\<close> does (the
  empty string is zero) and answers \<open>NaN\<close> on every other string.
\<close>

definition digit_val :: "char \<Rightarrow> nat" where
  "digit_val c = of_char c - 48"

definition is_digit :: "char \<Rightarrow> bool" where
  "is_digit c = (48 \<le> (of_char c :: nat) \<and> (of_char c :: nat) \<le> 57)"

definition digits_number :: "string \<Rightarrow> jsnum" where
  "digits_number s =
     (if list_all is_digit s
      then Fin (of_nat (foldl (\<lambda>acc c. 10 * acc + digit_val c) 0 s))
      else NaN)"

definition digits_runtime :: runtime where
  "digits_runtime =
     \<lparr>Number_str = digits_number,
      String_val = (\<lambda>v. case v of JNull \<Rightarrow> ''null'' | JUndef \<Rightarrow> ''undefined''
                          | JBool b \<Rightarrow> (if b then ''true'' else ''false'')
                          | _ \<Rightarrow> ''[object Object]'')\<rparr>"

section \<open>Concrete stores\<close>

text \<open>
  Two wrist bands owned by two users, two profiles, and three stored records of the first
  band.
\<close>

definition band_A :: device where
  "band_A =
     \<lparr>d_id = ''64a000000000000000000001'', deviceId = ''1234-ABCDEF012345'',
      deviceType = ''band'', status = Inactive, profileId = None,
      userId = Some ''64b000000000000000000001'', lastActiveAt = None\<rparr>"

definition band_B :: device where
  "band_B =
     \<lparr>d_id = ''64a000000000000000000002'', deviceId = ''1234-ABCDEF012346'',
      deviceType = ''band'', status = Active, profileId = Some ''64c000000000000000000001'',
      userId = Some ''64b000000000000000000002'', lastActiveAt = Some 900000\<rparr>"

definition user_1 :: user where
  "user_1 =
     \<lparr>u_id = ''64b000000000000000000001'', activeDevice = None,
      activeDevices = [''64a000000000000000000001'', ''64a000000000000000000002'']\<rparr>"

definition user_2 :: user where
  "user_2 =
     \<lparr>u_id = ''64b000000000000000000002'',
      activeDevice = Some ''64a000000000000000000002'',
      activeDevices = [''64a000000000000000000002'']\<rparr>"

definition profile_X :: profile where
  "profile_X = \<lparr>p_id = ''64c000000000000000000001'', p_identifier = ''alice''\<rparr>"

definition profile_Y :: profile where
  "profile_Y = \<lparr>p_id = ''64c000000000000000000002'', p_identifier = ''bob''\<rparr>"

definition record_at :: "int \<Rightarrow> health_doc" where
  "record_at t = new_health ''1234-ABCDEF012345'' t [(''heartRate'', JNum (Fin 70))]"

definition small_store :: store where
  "small_store =
     \<lparr>devices = [band_A, band_B], users = [user_1, user_2],
      profiles = [profile_X, profile_Y],
      healthData = [record_at 900000, record_at 990000, record_at 999000],
      sleepData = [], presenceState = Map.empty\<rparr>"

definition health_topic :: string where
  "health_topic = ''/1234-ABCDEF012345/health''"

definition absent_payload :: jsval where
  \<comment> \<open>\<open>{"heartRate": 75, "signals": {"presence": 0}}\<close>\<close>
  "absent_payload =
     JObj [(''heartRate'', JNum (Fin 75)), (''signals'', JObj [(''presence'', JNum (Fin 0))])]"

definition low_payload :: jsval where
  \<comment> \<open>\<open>{"heartRate": 25}\<close>, below a minimum of 30\<close>
  "low_payload = JObj [(''heartRate'', JNum (Fin 25))]"


section \<open>Facts about the handlers\<close>

lemma mqtt_message_health:
  assumes "topic_deviceId topic = Some dev" and "dev \<noteq> []" and "str_includes topic ''/health''"
    and "\<not> is_nullish d"
  shows "mqtt_message now topic (Some d) s =
           (Thrown (ReferenceError ''presenceState''),
            (case findOne_device (devices s) dev of
               Some dv \<Rightarrow> s\<lparr>devices := update_device (d_id dv) (mark_active now) (devices s)\<rparr>
             | None \<Rightarrow> s))"
  using assms by (simp add: mqtt_message_def mqtt_health_def Let_def)

lemma mqtt_message_health_store:
  assumes "topic_deviceId topic = Some dev" and "dev \<noteq> []" and "str_includes topic ''/health''"
    and "\<not> is_nullish d"
  shows "healthData (snd (mqtt_message now topic (Some d) s)) = healthData s"
    and "sleepData (snd (mqtt_message now topic (Some d) s)) = sleepData s"
    and "presenceState (snd (mqtt_message now topic (Some d) s)) = presenceState s"
  unfolding mqtt_message_health [OF assms] by (simp_all split: option.splits)

lemma findOne_update_device:
  assumes "findOne_device ds dev = Some dv" and "\<And>x. deviceId (f x) = deviceId x"
  shows "findOne_device (update_device (d_id dv) f ds) dev = Some (f dv)"
  using assms
  by (induction ds) (auto simp: findOne_device_def update_device_def)

lemma topic_A: "topic_deviceId health_topic = Some ''1234-ABCDEF012345''"
  unfolding health_topic_def by code_simp

lemma topic_A_health: "str_includes health_topic ''/health''"
  unfolding health_topic_def by code_simp

lemma found_A: "findOne_device (devices small_store) ''1234-ABCDEF012345'' = Some band_A"
  by (simp add: small_store_def findOne_device_def band_A_def band_B_def)

lemma found_B: "findOne_device (devices small_store) ''1234-ABCDEF012346'' = Some band_B"
  by (simp add: small_store_def findOne_device_def band_A_def band_B_def)

lemma stored_records:
  "map (\<lambda>h. (h_deviceId h, h_timestamp h)) (healthData small_store)
     = [(''1234-ABCDEF012345'', 900000), (''1234-ABCDEF012345'', 990000),
        (''1234-ABCDEF012345'', 999000)]"
  by (simp add: small_store_def record_at_def new_health_def)

lemma cast_profile_X: "castObjectId (p_id profile_X) = p_id profile_X"
  by (simp add: castObjectId_def profile_X_def lower_hex_def)

lemma cast_profile_Y: "castObjectId (p_id profile_Y) = p_id profile_Y"
  by (simp add: castObjectId_def profile_Y_def lower_hex_def)

section \<open>The line decoder\<close>

lemma hrv_names_length: "length hrv_names = 16"
  by (simp add: hrv_names_def)

lemma hrv_names_distinct: "distinct hrv_names"
  by (simp add: hrv_names_def)

lemma hrv_bag_zip:
  "map (\<lambda>i. (hrv_names ! i, f i)) [0..<16] = zip hrv_names (map f [0..<16])"
  by (rule nth_equalityI) (simp_all add: hrv_names_length)

lemma hrv_bag_lookup:
  assumes "i < 16"
  shows "get_prop (JObj (map (\<lambda>i. (hrv_names ! i, f i)) [0..<16])) (hrv_names ! i) = f i"
proof -
  have "map_of (zip hrv_names (map f [0..<16])) (hrv_names ! i) = Some (map f [0..<16] ! i)"
    using assms by (intro map_of_zip_nth) (simp_all add: hrv_names_length hrv_names_distinct)
  then show ?thesis using assms by (simp add: hrv_bag_zip)
qed

lemma hrv_names_rmssd: "hrv_names ! 2 = ''rmssd''" "hrv_names ! 4 = ''hr_median''"
  by (simp_all add: hrv_names_def)

lemma uart_tag_nonempty: "uart_tag line = ''HRV_DATA'' \<Longrightarrow> line \<noteq> []"
  by (auto simp: uart_tag_def uart_parts_def trim_def nth_opt_def toUpperCase_def)

lemma toNum_Fin: "Number_str E s = Fin r \<Longrightarrow> toNum E (Some s) = JNum (Fin r)"
  by (simp add: toNum_def)

text \<open>
  Claim C7. A line whose tag is \<open>HRV_DATA\<close> and which carries sixteen numeric fields
  after the tag fills all sixteen entries of the metric bag, each with the number read at
  its position, and promotes \<open>hrv\<close> from the \<open>rmssd\<close> position and \<open>heartRate\<close>
  from the \<open>hr_median\<close> position. A \<open>HRV_DATA\<close> line with fewer than sixteen fields
  after the tag fills no entry of the metric bag (and promotes nothing).
\<close>

theorem parseUartLine_hrv_data:
  assumes tag: "uart_tag line = ''HRV_DATA''"
  shows "(17 \<le> length (uart_parts line)
            \<and> (\<forall>i<16. \<exists>r. Number_str E (uart_parts line ! Suc i) = Fin r) \<longrightarrow>
          (\<exists>p. parseUartLine E line = Some p
             \<and> map fst (metrics p) = hrv_names
             \<and> (\<forall>i<16. \<exists>r. Number_str E (uart_parts line ! Suc i) = Fin r
                    \<and> get_prop (JObj (metrics p)) (hrv_names ! i) = JNum (Fin r))
             \<and> get_prop (JObj (patch p)) ''hrv'' = get_prop (JObj (metrics p)) ''rmssd''
             \<and> get_prop (JObj (patch p)) ''heartRate'' = get_prop (JObj (metrics p)) ''hr_median''
             \<and> get_prop (JObj (patch p)) ''hrv'' \<noteq> JUndef
             \<and> get_prop (JObj (patch p)) ''heartRate'' \<noteq> JUndef))
       \<and> (length (uart_parts line) < 17 \<longrightarrow>
          (\<exists>p. parseUartLine E line = Some p \<and> metrics p = [] \<and> patch p = []))"
proof (intro conjI impI)
  assume long: "17 \<le> length (uart_parts line)
       \<and> (\<forall>i<16. \<exists>r. Number_str E (uart_parts line ! Suc i) = Fin r)"
  let ?parts = "uart_parts line"
  let ?f = "\<lambda>i. toNum E (nth_opt ?parts (Suc i))"
  let ?ms = "map (\<lambda>i. (hrv_names ! i, ?f i)) [0..<16]"
  have num: "\<exists>r. Number_str E (?parts ! Suc i) = Fin r \<and> ?f i = JNum (Fin r)" if "i < 16" for i
  proof -
    from long that obtain r where r: "Number_str E (?parts ! Suc i) = Fin r" by blast
    moreover have "nth_opt ?parts (Suc i) = Some (?parts ! Suc i)"
      using long that by (simp add: nth_opt_def)
    ultimately show ?thesis by (auto simp: toNum_Fin)
  qed
  have look: "get_prop (JObj ?ms) (hrv_names ! i) = ?f i" if "i < 16" for i
    using that by (rule hrv_bag_lookup)
  have rm: "get_prop (JObj ?ms) ''rmssd'' = ?f 2" using look [of 2] by (simp add: hrv_names_rmssd)
  have hm: "get_prop (JObj ?ms) ''hr_median'' = ?f 4" using look [of 4] by (simp add: hrv_names_rmssd)
  from num [of 2] obtain r2 where r2: "?f 2 = JNum (Fin r2)" by auto
  from num [of 4] obtain r4 where r4: "?f 4 = JNum (Fin r4)" by auto
  have hc: "hrv_case E ?parts = ([(''hrv'', ?f 2), (''heartRate'', ?f 4)], ?ms)"
    using long unfolding hrv_case_def Let_def rm hm r2 r4 by simp
  have ps: "parseUartLine E line =
      Some \<lparr>patch = [(''hrv'', ?f 2), (''heartRate'', ?f 4)], metrics = ?ms, signals = [], raw = line\<rparr>"
    using uart_tag_nonempty [OF tag] tag by (simp add: parseUartLine_def hc Let_def)
  have keys: "map fst ?ms = hrv_names"
    by (rule nth_equalityI) (simp_all add: hrv_names_length)
  show "\<exists>p. parseUartLine E line = Some p
             \<and> map fst (metrics p) = hrv_names
             \<and> (\<forall>i<16. \<exists>r. Number_str E (uart_parts line ! Suc i) = Fin r
                    \<and> get_prop (JObj (metrics p)) (hrv_names ! i) = JNum (Fin r))
             \<and> get_prop (JObj (patch p)) ''hrv'' = get_prop (JObj (metrics p)) ''rmssd''
             \<and> get_prop (JObj (patch p)) ''heartRate'' = get_prop (JObj (metrics p)) ''hr_median''
             \<and> get_prop (JObj (patch p)) ''hrv'' \<noteq> JUndef
             \<and> get_prop (JObj (patch p)) ''heartRate'' \<noteq> JUndef"
    unfolding ps
    apply (intro exI [of _ "\<lparr>patch = [(''hrv'', ?f 2), (''heartRate'', ?f 4)], metrics = ?ms, signals = [], raw = line\<rparr>"] conjI)
          apply simp
    using keys apply simp
    using num look apply (simp only: parsed.simps) apply metis
    using rm apply simp
    using hm apply simp
    using r2 apply simp
    using r4 apply simp
    done
next
  assume short: "length (uart_parts line) < 17"
  then have "hrv_case E (uart_parts line) = ([], [])"
    by (simp add: hrv_case_def)
  then show "\<exists>p. parseUartLine E line = Some p \<and> metrics p = [] \<and> patch p = []"
    using uart_tag_nonempty [OF tag] tag by (simp add: parseUartLine_def Let_def)
qed

theorem parseUartLine_hrv_data_witness:
  "uart_tag ''hrv_data,801,42,35,12,72,9,210,25,60,510,340,15,1,0,2,3'' = ''HRV_DATA''
   \<and> (\<exists>p. parseUartLine digits_runtime ''hrv_data,801,42,35,12,72,9,210,25,60,510,340,15,1,0,2,3'' = Some p
        \<and> map fst (metrics p) = hrv_names
        \<and> get_prop (JObj (patch p)) ''hrv'' \<noteq> JUndef
        \<and> get_prop (JObj (patch p)) ''heartRate'' \<noteq> JUndef)
   \<and> uart_tag ''HRV_DATA,801,42,35'' = ''HRV_DATA''
   \<and> (\<exists>p. parseUartLine digits_runtime ''HRV_DATA,801,42,35'' = Some p \<and> metrics p = [])"
proof -
  let ?l1 = "''hrv_data,801,42,35,12,72,9,210,25,60,510,340,15,1,0,2,3''"
  let ?l2 = "''HRV_DATA,801,42,35''"
  have t1: "uart_tag ?l1 = ''HRV_DATA''" by code_simp
  have t2: "uart_tag ?l2 = ''HRV_DATA''" by code_simp
  have p1: "uart_parts ?l1 = [''hrv_data'',''801'',''42'',''35'',''12'',''72'',''9'',''210'',''25'',''60'',''510'',''340'',''15'',''1'',''0'',''2'',''3'']"
    by code_simp
  have p2: "uart_parts ?l2 = [''HRV_DATA'',''801'',''42'',''35'']" by code_simp
  have n1: "17 \<le> length (uart_parts ?l1)" unfolding p1 by simp
  have n2: "length (uart_parts ?l2) < 17" unfolding p2 by simp
  have f1: "\<forall>i<16. \<exists>r. Number_str digits_runtime (uart_parts ?l1 ! Suc i) = Fin r"
    unfolding p1
    by (simp add: eval_nat_numeral All_less_Suc digits_runtime_def digits_number_def is_digit_def)
  show ?thesis
    using parseUartLine_hrv_data [OF t1, of digits_runtime]
      parseUartLine_hrv_data [OF t2, of digits_runtime] t1 t2 n1 n2 f1
    by blast
qed

section \<open>Telemetry marks the device active\<close>







section \<open>The health branch of the publish/subscribe handler\<close>

text \<open>
  Claim C3. The first band has three stored records, two of them in the twelve seconds
  before 1000000; no presence was ever observed for it, so its last presence is the
  default 1. A health message with presence 0 arrives at 1000000. The handler throws at
  \<open>presenceState.get\<close> before it reaches \<open>deleteMany\<close>: nothing is retracted, and the two
  records of the window are still stored.
\<close>

theorem presence_drop_retracts_nothing:
  "topic_deviceId health_topic = Some ''1234-ABCDEF012345''
   \<and> str_includes health_topic ''/health''
   \<and> get_prop (get_prop absent_payload ''signals'') ''presence'' = JNum (Fin 0)
   \<and> presenceState small_store ''1234-ABCDEF012345'' = None
   \<and> fst (mqtt_message 1000000 health_topic (Some absent_payload) small_store)
       = Thrown (ReferenceError ''presenceState'')
   \<and> map (\<lambda>h. (h_deviceId h, h_timestamp h))
        (healthData (snd (mqtt_message 1000000 health_topic (Some absent_payload) small_store)))
       = [(''1234-ABCDEF012345'', 900000), (''1234-ABCDEF012345'', 990000),
          (''1234-ABCDEF012345'', 999000)]
   \<and> filter (\<lambda>h. h_deviceId h = ''1234-ABCDEF012345'' \<and> 1000000 - 12000 \<le> h_timestamp h)
        (healthData (snd (mqtt_message 1000000 health_topic (Some absent_payload) small_store)))
       = [record_at 990000, record_at 999000]"
proof -
  have ne: "''1234-ABCDEF012345'' \<noteq> []" by simp
  have nn: "\<not> is_nullish absent_payload" by (simp add: absent_payload_def)
  have pr: "get_prop (get_prop absent_payload ''signals'') ''presence'' = JNum (Fin 0)"
    by (simp add: absent_payload_def)
  have tr: "presenceState small_store ''1234-ABCDEF012345'' = None"
    by (simp add: small_store_def)
  have out: "fst (mqtt_message 1000000 health_topic (Some absent_payload) small_store)
       = Thrown (ReferenceError ''presenceState'')"
    unfolding mqtt_message_health [OF topic_A ne topic_A_health nn] by simp
  have hd: "healthData (snd (mqtt_message 1000000 health_topic (Some absent_payload) small_store))
              = healthData small_store"
    by (rule mqtt_message_health_store [OF topic_A ne topic_A_health nn])
  have win: "filter (\<lambda>h. h_deviceId h = ''1234-ABCDEF012345'' \<and> 1000000 - 12000 \<le> h_timestamp h)
        (healthData small_store) = [record_at 990000, record_at 999000]"
    by (simp add: small_store_def record_at_def new_health_def)
  show ?thesis
    unfolding hd using topic_A topic_A_health pr tr out stored_records win by simp
qed

text \<open>
  Claim C9. A health message with heart rate 25 arrives for the first band, a value
  that a rule with minimum 30 would reject. The handler throws at \<open>presenceState.get\<close>
  before the loop over the rules: the message is not persisted, but no baseline is
  written either. The only tracker of the process has no entry for the device after the
  message, as before it.
\<close>

theorem violating_message_writes_no_baseline:
  "topic_deviceId health_topic = Some ''1234-ABCDEF012345''
   \<and> str_includes health_topic ''/health''
   \<and> get_prop low_payload ''heartRate'' = JNum (Fin 25)
   \<and> presenceState small_store ''1234-ABCDEF012345'' = None
   \<and> fst (mqtt_message 1000000 health_topic (Some low_payload) small_store)
       = Thrown (ReferenceError ''presenceState'')
   \<and> presenceState (snd (mqtt_message 1000000 health_topic (Some low_payload) small_store))
        ''1234-ABCDEF012345'' = None
   \<and> map (\<lambda>h. (h_deviceId h, h_timestamp h))
        (healthData (snd (mqtt_message 1000000 health_topic (Some low_payload) small_store)))
       = [(''1234-ABCDEF012345'', 900000), (''1234-ABCDEF012345'', 990000),
          (''1234-ABCDEF012345'', 999000)]"
proof -
  have ne: "''1234-ABCDEF012345'' \<noteq> []" by simp
  have nn: "\<not> is_nullish low_payload" by (simp add: low_payload_def)
  have hr: "get_prop low_payload ''heartRate'' = JNum (Fin 25)" by (simp add: low_payload_def)
  have tr: "presenceState small_store ''1234-ABCDEF012345'' = None"
    by (simp add: small_store_def)
  have out: "fst (mqtt_message 1000000 health_topic (Some low_payload) small_store)
       = Thrown (ReferenceError ''presenceState'')"
    unfolding mqtt_message_health [OF topic_A ne topic_A_health nn] by simp
  note st = mqtt_message_health_store [OF topic_A ne topic_A_health nn, of 1000000 small_store]
  show ?thesis
    unfolding st using topic_A topic_A_health hr tr out stored_records by simp
qed


section \<open>The request-based endpoint is not gated\<close>

text \<open>
  Claim C1. The request-based endpoint has neither the presence stage nor the rule stage
  that the source of the publish/subscribe handler carries: a health request for a known
  device with a payload is always persisted, whatever its presence signal, its metric
  values and the rule table.
\<close>

theorem http_ingest_persists_ungated:
  assumes found: "findOne_device (devices s) dev = Some dv" and dev: "dev \<noteq> []"
    and payload: "truthy d"
  shows "fst (http_ingest E now (Some dev) (Some ''health'') d s) = Inr ''Health data saved via http''
       \<and> healthData (snd (http_ingest E now (Some dev) (Some ''health'') d s))
           = healthData s @ [new_health dev now (http_health_fields E dev now d)]"
  using assms by (simp add: http_ingest_def Let_def)

theorem http_ingest_persists_ungated_witness:
  "findOne_device (devices small_store) ''1234-ABCDEF012345'' = Some band_A
   \<and> truthy absent_payload
   \<and> get_prop (get_prop absent_payload ''signals'') ''presence'' = JNum (Fin 0)
   \<and> fst (http_ingest digits_runtime 1000000 (Some ''1234-ABCDEF012345'') (Some ''health'')
             absent_payload small_store) = Inr ''Health data saved via http''
   \<and> healthData (snd (http_ingest digits_runtime 1000000 (Some ''1234-ABCDEF012345'')
                         (Some ''health'') absent_payload small_store))
       = healthData small_store
           @ [new_health ''1234-ABCDEF012345'' 1000000
                (http_health_fields digits_runtime ''1234-ABCDEF012345'' 1000000 absent_payload)]"
proof -
  have ne: "''1234-ABCDEF012345'' \<noteq> []" by simp
  have tr: "truthy absent_payload" by (simp add: absent_payload_def)
  have pr: "get_prop (get_prop absent_payload ''signals'') ''presence'' = JNum (Fin 0)"
    by (simp add: absent_payload_def)
  show ?thesis
    using http_ingest_persists_ungated [OF found_A ne tr, of digits_runtime 1000000]
      found_A tr pr
    by blast
qed

section \<open>Activation\<close>

lemma activate_as_steps:
  "activate_step now dev pid_opt
     (activate_step now dev pid_opt
        (activate_step now dev pid_opt
           (activate_step now dev pid_opt
              (activate_step now dev pid_opt (AStart, s)))))
   = (ADone (fst (activate now dev pid_opt s)), snd (activate now dev pid_opt s))"
  by (simp add: activate_def Let_def split: option.splits)

text \<open>
  Claim C5. When the device is active and bound to a profile whose id differs from the
  requested one, activation answers Conflict and returns the store as it was: no device
  is deactivated and no user pointer is written. The message is
  \<open>Device <deviceId> is already active on profile "<name>"\<close>, where the name is the
  \<open>identifier\<close> of the profile the device is bound to; when that profile has no
  document, or an empty \<open>identifier\<close>, the name is the id of that profile.
\<close>

theorem activate_conflict:
  assumes found: "findOne_device (devices s) dev = Some d"
    and active: "status d = Active"
    and bound: "profileId d = Some p" "p \<noteq> pid"
    and given: "pid \<noteq> []"
  shows "(\<forall>pr. find (\<lambda>x. p_id x = p) (profiles s) = Some pr \<and> p_identifier pr \<noteq> [] \<longrightarrow>
            activate now dev (Some pid) s
              = (Inl (Conflict (''Device '' @ dev @ '' is already active on profile ''
                                  @ [CHR 0x22] @ p_identifier pr @ [CHR 0x22])), s))
       \<and> (find (\<lambda>x. p_id x = p) (profiles s) = None
            \<or> (\<exists>pr. find (\<lambda>x. p_id x = p) (profiles s) = Some pr \<and> p_identifier pr = []) \<longrightarrow>
            activate now dev (Some pid) s
              = (Inl (Conflict (''Device '' @ dev @ '' is already active on profile ''
                                  @ [CHR 0x22] @ p @ [CHR 0x22])), s))"
  using assms
  by (auto simp: activate_def has_conflict_def conflict_message_def profile_name_def
      bound_profile_name_def quoted_def)

theorem activate_conflict_witness:
  "findOne_device (devices small_store) ''1234-ABCDEF012346'' = Some band_B
   \<and> status band_B = Active
   \<and> profileId band_B = Some ''64c000000000000000000001''
   \<and> ''64c000000000000000000001'' \<noteq> ''64c000000000000000000002''
   \<and> ''64c000000000000000000002'' \<noteq> []
   \<and> find (\<lambda>x. p_id x = ''64c000000000000000000001'') (profiles small_store) = Some profile_X
   \<and> p_identifier profile_X = ''alice''
   \<and> activate 1000000 ''1234-ABCDEF012346'' (Some ''64c000000000000000000002'') small_store
       = (Inl (Conflict (''Device 1234-ABCDEF012346 is already active on profile ''
                           @ [CHR 0x22] @ ''alice'' @ [CHR 0x22])), small_store)
   \<and> find (\<lambda>x. p_id x = ''64c000000000000000000001'')
        (profiles (small_store\<lparr>profiles := [profile_Y]\<rparr>)) = None
   \<and> activate 1000000 ''1234-ABCDEF012346'' (Some ''64c000000000000000000002'')
        (small_store\<lparr>profiles := [profile_Y]\<rparr>)
       = (Inl (Conflict (''Device 1234-ABCDEF012346 is already active on profile ''
                           @ [CHR 0x22] @ ''64c000000000000000000001'' @ [CHR 0x22])),
          small_store\<lparr>profiles := [profile_Y]\<rparr>)"
proof -
  have a: "status band_B = Active" by (simp add: band_B_def)
  have b: "profileId band_B = Some ''64c000000000000000000001''" by (simp add: band_B_def)
  have c: "''64c000000000000000000001'' \<noteq> ''64c000000000000000000002''" by simp
  have e: "''64c000000000000000000002'' \<noteq> []" by simp
  have f: "find (\<lambda>x. p_id x = ''64c000000000000000000001'') (profiles small_store)
             = Some profile_X"
    by (simp add: small_store_def profile_X_def)
  have g: "p_identifier profile_X = ''alice''" by (simp add: profile_X_def)
  have g': "p_identifier profile_X \<noteq> []" by (simp add: profile_X_def)
  have fb: "findOne_device (devices (small_store\<lparr>profiles := [profile_Y]\<rparr>)) ''1234-ABCDEF012346''
              = Some band_B"
    using found_B by simp
  have n: "find (\<lambda>x. p_id x = ''64c000000000000000000001'')
        (profiles (small_store\<lparr>profiles := [profile_Y]\<rparr>)) = None"
    by (simp add: profile_Y_def)
  from activate_conflict [OF found_B a b c e, of 1000000] f g g'
  have one: "activate 1000000 ''1234-ABCDEF012346'' (Some ''64c000000000000000000002'') small_store
       = (Inl (Conflict (''Device 1234-ABCDEF012346 is already active on profile ''
                           @ [CHR 0x22] @ ''alice'' @ [CHR 0x22])), small_store)"
    by simp
  from activate_conflict [OF fb a b c e, of 1000000] n
  have two: "activate 1000000 ''1234-ABCDEF012346'' (Some ''64c000000000000000000002'')
        (small_store\<lparr>profiles := [profile_Y]\<rparr>)
       = (Inl (Conflict (''Device 1234-ABCDEF012346 is already active on profile ''
                           @ [CHR 0x22] @ ''64c000000000000000000001'' @ [CHR 0x22])),
          small_store\<lparr>profiles := [profile_Y]\<rparr>)"
    by simp
  show ?thesis using found_B a b c e f g n one two by simp
qed

text \<open>
  Claim C4. A second activation of the same device on the same profile leaves no device
  active for the profile. The document is read as active; \<open>updateMany\<close> then sets every
  device of the profile inactive in the store, the device itself included; the assignment
  of \<open>"active"\<close> to the document in memory changes nothing, so \<open>save()\<close> writes the
  new \<open>lastActiveAt\<close> only. The same happens on a first activation of a device that
  telemetry has already marked active on its profile.
\<close>

theorem activate_twice_leaves_none_active:
  "fst (activate 1000000 ''1234-ABCDEF012345'' (Some (p_id profile_X)) small_store)
     = Inr (''Device 1234-ABCDEF012345 activated on profile '' @ quoted ''alice'')
   \<and> map deviceId
         (active_for (p_id profile_X)
            (snd (activate 1000000 ''1234-ABCDEF012345'' (Some (p_id profile_X)) small_store)))
     = [''1234-ABCDEF012345'']
   \<and> fst (activate 1000500 ''1234-ABCDEF012345'' (Some (p_id profile_X))
            (snd (activate 1000000 ''1234-ABCDEF012345'' (Some (p_id profile_X)) small_store)))
     = Inr (''Device 1234-ABCDEF012345 activated on profile '' @ quoted ''alice'')
   \<and> active_for (p_id profile_X)
         (snd (activate 1000500 ''1234-ABCDEF012345'' (Some (p_id profile_X))
                 (snd (activate 1000000 ''1234-ABCDEF012345'' (Some (p_id profile_X))
                         small_store))))
     = []
   \<and> map (\<lambda>d. (deviceId d, status d, profileId d, lastActiveAt d))
         (devices
            (snd (activate 1000500 ''1234-ABCDEF012345'' (Some (p_id profile_X))
                    (snd (activate 1000000 ''1234-ABCDEF012345'' (Some (p_id profile_X))
                            small_store)))))
     = [(''1234-ABCDEF012345'', Inactive, Some (p_id profile_X), Some 1000500),
        (''1234-ABCDEF012346'', Inactive, Some (p_id profile_X), Some 900000)]"
  by (simp add: activate_def small_store_def band_A_def band_B_def profile_X_def profile_Y_def
      user_1_def user_2_def findOne_device_def has_conflict_def deactivate_profile_def
      save_device_def update_device_def activated_def set_activeDevice_def profile_name_def
      activated_message_def active_for_def castObjectId_def lower_hex_def
      bound_profile_name_def Let_def)

lemma findOne_map_device:
  assumes "\<And>x. deviceId (g x) = deviceId x"
  shows "findOne_device (map g ds) dev = map_option g (findOne_device ds dev)"
  using assms by (induction ds) (auto simp: findOne_device_def)

text \<open>
  What activation does guarantee when requests run one after the other. After a
  successful activation no device other than the target is active for the profile; and
  the target itself is active on the profile, with the new \<open>lastActiveAt\<close>, whenever it
  was not read as active.
\<close>

theorem activate_success_exclusive:
  assumes ok: "activate now dev (Some pid) s = (Inr m, s')"
  shows "\<exists>d. findOne_device (devices s) dev = Some d
           \<and> (\<forall>x \<in> set (devices s'). profileId x = Some (castObjectId pid) \<and> status x = Active
                  \<longrightarrow> d_id x = d_id d)
           \<and> (status d \<noteq> Active \<longrightarrow>
                 findOne_device (devices s') dev
                   = Some (d\<lparr>status := Active, profileId := Some (castObjectId pid),
                             lastActiveAt := Some now\<rparr>))"
proof -
  let ?c = "castObjectId pid"
  from ok obtain d where d: "findOne_device (devices s) dev = Some d"
    and nc: "\<not> has_conflict d pid" and pid: "pid \<noteq> []"
    by (auto simp: activate_def Let_def split: option.splits if_splits)
  let ?g = "\<lambda>x. if d_id x = d_id d
        then x\<lparr>status := (if status (activated now pid d) \<noteq> status d
                           then status (activated now pid d) else status x),
               profileId := (if profileId (activated now pid d) \<noteq> profileId d
                             then profileId (activated now pid d) else profileId x),
               lastActiveAt := (if lastActiveAt (activated now pid d) \<noteq> lastActiveAt d
                                then lastActiveAt (activated now pid d) else lastActiveAt x)\<rparr>
        else x"
  let ?h = "\<lambda>x. if profileId x = Some ?c then x\<lparr>status := Inactive\<rparr> else x"
  from ok d nc pid have devs: "devices s' = map ?g (map ?h (devices s))"
    by (auto simp: activate_def Let_def save_device_def update_device_def
        deactivate_profile_def)
  have excl: "d_id x = d_id d"
    if "x \<in> set (devices s')" "profileId x = Some ?c \<and> status x = Active" for x
  proof (rule ccontr)
    assume other: "d_id x \<noteq> d_id d"
    from that(1) obtain y where y: "y \<in> set (devices s)" "x = ?g (?h y)"
      unfolding devs by auto
    from other y(2) have "d_id (?h y) \<noteq> d_id d" by (auto split: if_splits)
    with y(2) have "x = ?h y" by simp
    with that(2) show False by (auto split: if_splits)
  qed
  have target: "findOne_device (devices s') dev
      = Some (d\<lparr>status := Active, profileId := Some ?c, lastActiveAt := Some now\<rparr>)"
    if na: "status d \<noteq> Active"
  proof -
    have "findOne_device (devices s') dev = map_option (?g \<circ> ?h) (findOne_device (devices s) dev)"
      unfolding devs map_map by (rule findOne_map_device) simp
    also have "\<dots> = Some (?g (?h d))" using d by simp
    also have "?g (?h d) = d\<lparr>status := Active, profileId := Some ?c, lastActiveAt := Some now\<rparr>"
      using na by (cases d) (auto simp: activated_def)
    finally show ?thesis .
  qed
  from d excl target show ?thesis by blast
qed

theorem activate_success_exclusive_witness:
  "activate 1000000 ''1234-ABCDEF012345'' (Some ''64c000000000000000000001'') small_store
     = (Inr (''Device 1234-ABCDEF012345 activated on profile '' @ [CHR 0x22] @ ''alice''
               @ [CHR 0x22]),
        small_store
          \<lparr>devices := [band_A\<lparr>status := Active, profileId := Some ''64c000000000000000000001'',
                               lastActiveAt := Some 1000000\<rparr>,
                       band_B\<lparr>status := Inactive\<rparr>],
           users := [user_1\<lparr>activeDevice := Some (d_id band_A)\<rparr>, user_2]\<rparr>)
   \<and> status band_A = Inactive
   \<and> castObjectId ''64c000000000000000000001'' = ''64c000000000000000000001''
   \<and> (\<exists>d. findOne_device (devices small_store) ''1234-ABCDEF012345'' = Some d
          \<and> findOne_device
               (devices
                  (small_store
                     \<lparr>devices := [band_A\<lparr>status := Active,
                                          profileId := Some ''64c000000000000000000001'',
                                          lastActiveAt := Some 1000000\<rparr>,
                                  band_B\<lparr>status := Inactive\<rparr>],
                      users := [user_1\<lparr>activeDevice := Some (d_id band_A)\<rparr>, user_2]\<rparr>))
               ''1234-ABCDEF012345''
             = Some (d\<lparr>status := Active, profileId := Some ''64c000000000000000000001'',
                       lastActiveAt := Some 1000000\<rparr>))"
proof -
  have run: "activate 1000000 ''1234-ABCDEF012345'' (Some ''64c000000000000000000001'') small_store
     = (Inr (''Device 1234-ABCDEF012345 activated on profile '' @ [CHR 0x22] @ ''alice''
               @ [CHR 0x22]),
        small_store
          \<lparr>devices := [band_A\<lparr>status := Active, profileId := Some ''64c000000000000000000001'',
                               lastActiveAt := Some 1000000\<rparr>,
                       band_B\<lparr>status := Inactive\<rparr>],
           users := [user_1\<lparr>activeDevice := Some (d_id band_A)\<rparr>, user_2]\<rparr>)"
    by (simp add: activate_def small_store_def band_A_def band_B_def profile_X_def profile_Y_def
      user_1_def user_2_def findOne_device_def has_conflict_def deactivate_profile_def
      save_device_def update_device_def activated_def set_activeDevice_def profile_name_def
      activated_message_def castObjectId_def lower_hex_def quoted_def Let_def)
  have st: "status band_A = Inactive" by (simp add: band_A_def)
  have ca: "castObjectId ''64c000000000000000000001'' = ''64c000000000000000000001''"
    by (simp add: castObjectId_def lower_hex_def)
  from activate_success_exclusive [OF run] found_A st ca
  show ?thesis using run by auto
qed

text \<open>
  Claim C8. Nothing in the handler excludes a second request between its storage calls.
  Two requests for the same profile, one for each band, whose steps alternate both find no
  conflict, both deactivate the devices of the profile before either has saved, and both
  save: the two devices end active for the profile together.
\<close>

theorem concurrent_activate_both_active:
  "interleave 1000000
     (''1234-ABCDEF012345'', Some (p_id profile_Y))
     (''1234-ABCDEF012346'', Some (p_id profile_Y))
     [True, False, True, False, True, False, True, False, True, False]
     (AStart, AStart, small_store\<lparr>devices := [band_A, band_B\<lparr>status := Inactive\<rparr>]\<rparr>)
   = (ADone (Inr (''Device 1234-ABCDEF012345 activated on profile '' @ quoted ''bob'')),
      ADone (Inr (''Device 1234-ABCDEF012346 activated on profile '' @ quoted ''bob'')),
      small_store
        \<lparr>devices := [activated 1000000 (p_id profile_Y) band_A,
                     activated 1000000 (p_id profile_Y) band_B],
         users := [user_1\<lparr>activeDevice := Some (d_id band_A)\<rparr>, user_2]\<rparr>)
   \<and> map deviceId
         (active_for (p_id profile_Y)
            (snd (snd (interleave 1000000
                         (''1234-ABCDEF012345'', Some (p_id profile_Y))
                         (''1234-ABCDEF012346'', Some (p_id profile_Y))
                         [True, False, True, False, True, False, True, False, True, False]
                         (AStart, AStart,
                          small_store\<lparr>devices := [band_A, band_B\<lparr>status := Inactive\<rparr>]\<rparr>)))))
     = [''1234-ABCDEF012345'', ''1234-ABCDEF012346'']"
  by (simp add: small_store_def band_A_def band_B_def profile_X_def profile_Y_def
      user_1_def user_2_def findOne_device_def has_conflict_def deactivate_profile_def
      save_device_def update_device_def activated_def set_activeDevice_def profile_name_def
      activated_message_def active_for_def castObjectId_def lower_hex_def
      bound_profile_name_def Let_def)

section \<open>Deactivation\<close>

lemma find_map_same_key:
  assumes "find (\<lambda>u. u_id u = uid) us = Some u" and "\<And>x. u_id (f x) = u_id x"
  shows "find (\<lambda>u. u_id u = uid) (map (\<lambda>x. if u_id x = uid then f x else x) us) = Some (f u)"
  using assms by (induction us) (auto split: if_splits)

text \<open>
  Claim C6, the counterexample. The second band is owned by the second user and is
  active; the first user asks to deactivate it. The request succeeds and the band's
  status changes to inactive: the handler never compares the device's owner with the
  requesting user.
\<close>

theorem setInactiveDevice_counterexample:
  "userId band_B \<noteq> Some (u_id user_1)
   \<and> findOne_device (devices small_store) ''1234-ABCDEF012346'' = Some band_B
   \<and> status band_B = Active
   \<and> fst (setInactiveDevice (u_id user_1) ''1234-ABCDEF012346'' small_store)
       = Inr ''Device 1234-ABCDEF012346 set as inactive''
   \<and> findOne_device
        (devices (snd (setInactiveDevice (u_id user_1) ''1234-ABCDEF012346'' small_store)))
        ''1234-ABCDEF012346''
       = Some (band_B\<lparr>status := Inactive\<rparr>)"
  by (simp add: setInactiveDevice_def small_store_def band_A_def band_B_def user_1_def
      user_2_def findOne_device_def update_device_def Let_def)

text \<open>
  Claim C6 as amended. Deactivation succeeds whenever the requesting user exists and a
  device with the given deviceId exists, whether or not the user owns the device: the
  device's status is set to inactive and the device is removed from the requesting
  user's active-device collection. When the requesting user or the device does not
  exist, the request fails with NotFound and the store is unchanged.
\<close>

theorem setInactiveDevice_effect:
  assumes dev: "dev \<noteq> []"
  shows "(find (\<lambda>u. u_id u = uid) (users s) = None \<longrightarrow>
            setInactiveDevice uid dev s = (Inl (NotFound ''User not found''), s))
       \<and> (\<forall>u. find (\<lambda>u. u_id u = uid) (users s) = Some u \<longrightarrow>
            (findOne_device (devices s) dev = None \<longrightarrow>
               setInactiveDevice uid dev s = (Inl (NotFound ''Device not found''), s))
          \<and> (\<forall>d. findOne_device (devices s) dev = Some d \<longrightarrow>
                fst (setInactiveDevice uid dev s) = Inr (''Device '' @ dev @ '' set as inactive'')
              \<and> findOne_device (devices (snd (setInactiveDevice uid dev s))) dev
                  = Some (d\<lparr>status := Inactive\<rparr>)
              \<and> find (\<lambda>u. u_id u = uid) (users (snd (setInactiveDevice uid dev s)))
                  = Some (u\<lparr>activeDevices := filter (\<lambda>i. i \<noteq> d_id d) (activeDevices u)\<rparr>)))"
proof (intro conjI allI impI)
  assume "find (\<lambda>u. u_id u = uid) (users s) = None"
  then show "setInactiveDevice uid dev s = (Inl (NotFound ''User not found''), s)"
    using dev by (simp add: setInactiveDevice_def)
next
  fix u
  assume u: "find (\<lambda>u. u_id u = uid) (users s) = Some u"
    and "findOne_device (devices s) dev = None"
  then show "setInactiveDevice uid dev s = (Inl (NotFound ''Device not found''), s)"
    using dev by (simp add: setInactiveDevice_def)
next
  fix u d
  assume u: "find (\<lambda>u. u_id u = uid) (users s) = Some u"
    and d: "findOne_device (devices s) dev = Some d"
  show "fst (setInactiveDevice uid dev s) = Inr (''Device '' @ dev @ '' set as inactive'')"
    using dev u d by (simp add: setInactiveDevice_def Let_def)
  have "findOne_device (update_device (d_id d) (\<lambda>x. x\<lparr>status := Inactive\<rparr>) (devices s)) dev
          = Some (d\<lparr>status := Inactive\<rparr>)"
    by (rule findOne_update_device [OF d]) simp
  then show "findOne_device (devices (snd (setInactiveDevice uid dev s))) dev
                  = Some (d\<lparr>status := Inactive\<rparr>)"
    using dev u d by (simp add: setInactiveDevice_def Let_def)
  have "find (\<lambda>u. u_id u = uid)
          (map (\<lambda>x. if u_id x = uid
                     then x\<lparr>activeDevices := filter (\<lambda>i. i \<noteq> d_id d) (activeDevices u)\<rparr>
                     else x) (users s))
        = Some (u\<lparr>activeDevices := filter (\<lambda>i. i \<noteq> d_id d) (activeDevices u)\<rparr>)"
    by (rule find_map_same_key [OF u]) simp
  then show "find (\<lambda>u. u_id u = uid) (users (snd (setInactiveDevice uid dev s)))
                  = Some (u\<lparr>activeDevices := filter (\<lambda>i. i \<noteq> d_id d) (activeDevices u)\<rparr>)"
    using dev u d by (simp add: setInactiveDevice_def Let_def)
qed

theorem setInactiveDevice_effect_witness:
  "''1234-ABCDEF012346'' \<noteq> []
   \<and> find (\<lambda>u. u_id u = u_id user_1) (users small_store) = Some user_1
   \<and> findOne_device (devices small_store) ''1234-ABCDEF012346'' = Some band_B
   \<and> fst (setInactiveDevice (u_id user_1) ''1234-ABCDEF012346'' small_store)
       = Inr ''Device 1234-ABCDEF012346 set as inactive''
   \<and> findOne_device
        (devices (snd (setInactiveDevice (u_id user_1) ''1234-ABCDEF012346'' small_store)))
        ''1234-ABCDEF012346''
       = Some (band_B\<lparr>status := Inactive\<rparr>)
   \<and> find (\<lambda>u. u_id u = u_id user_1)
        (users (snd (setInactiveDevice (u_id user_1) ''1234-ABCDEF012346'' small_store)))
       = Some (user_1\<lparr>activeDevices := [''64a000000000000000000001'']\<rparr>)
   \<and> find (\<lambda>u. u_id u = ''64b0000000000000000000ff'') (users small_store) = None
   \<and> setInactiveDevice ''64b0000000000000000000ff'' ''1234-ABCDEF012346'' small_store
       = (Inl (NotFound ''User not found''), small_store)
   \<and> findOne_device (devices small_store) ''9999-000000000000'' = None
   \<and> setInactiveDevice (u_id user_1) ''9999-000000000000'' small_store
       = (Inl (NotFound ''Device not found''), small_store)"
proof -
  have ne: "''1234-ABCDEF012346'' \<noteq> []" "''9999-000000000000'' \<noteq> []" by simp_all
  have u: "find (\<lambda>u. u_id u = u_id user_1) (users small_store) = Some user_1"
    by (simp add: small_store_def)
  have nu: "find (\<lambda>u. u_id u = ''64b0000000000000000000ff'') (users small_store) = None"
    by (simp add: small_store_def user_1_def user_2_def)
  have nd: "findOne_device (devices small_store) ''9999-000000000000'' = None"
    by (simp add: small_store_def findOne_device_def band_A_def band_B_def)
  have ad: "filter (\<lambda>i. i \<noteq> d_id band_B) (activeDevices user_1) = [''64a000000000000000000001'']"
    by (simp add: band_B_def user_1_def)
  show ?thesis
    using setInactiveDevice_effect [OF ne(1), of "u_id user_1" small_store]
      setInactiveDevice_effect [OF ne(1), of "''64b0000000000000000000ff''" small_store]
      setInactiveDevice_effect [OF ne(2), of "u_id user_1" small_store]
      ne u nu nd ad found_B
    by simp
qed

end
